theory Spec2Isabelle
  imports Main
begin

section \<open>Values of the program\<close>

text \<open>
  The program is the single file \<^verbatim>\<open>src/App.js\<close>: a React Native screen that keeps
  reminders in an SQLite table and arms local notifications through the host's
  notification scheduler. Its operations are the asynchronous functions
  \<^verbatim>\<open>initializeDatabase\<close>, \<^verbatim>\<open>loadReminders\<close>, \<^verbatim>\<open>addReminder\<close>, \<^verbatim>\<open>deleteReminder\<close> and
  \<^verbatim>\<open>scheduleNotification\<close>.

  An asynchronous function is a state transformer that either resolves with a value or
  rejects with an error; the state it leaves behind is kept in both cases, since what
  was written before a rejection stays written.
\<close>

datatype error = NoSuchTable | DatabaseFull | StorageFailure | NotificationFailure

datatype 'a outcome = Resolved 'a | Rejected error

text \<open>
  A row of the table \<^verbatim>\<open>reminders (id INTEGER PRIMARY KEY AUTOINCREMENT, title TEXT,
  message TEXT, date TEXT)\<close>. The id is the engine's 64-bit integer. The program holds it as
  a JavaScript number, which is that integer as long as its magnitude is below \<open>2^53\<close>; the
  model keeps the integer, and a property that reads ids back from the list assumes
  \<open>safe_ids\<close>.
\<close>

record row =
  row_id :: int
  row_title :: string
  row_message :: string
  row_date :: string

text \<open>
  The table together with its entry in \<^verbatim>\<open>sqlite_sequence\<close>, where the engine keeps the
  largest rowid an \<^verbatim>\<open>AUTOINCREMENT\<close> table has ever held.
\<close>

record table =
  rows :: "row list"
  sqlite_sequence :: int

datatype journal_mode = DELETE_JOURNAL | WAL

record database =
  journal :: journal_mode
  reminders_tbl :: "table option"

text \<open>
  A request held by the host's notification scheduler. The content the source builds has
  the fields \<^verbatim>\<open>title\<close>, \<^verbatim>\<open>body\<close>, \<^verbatim>\<open>sound\<close> and a constant \<^verbatim>\<open>icon\<close> asset (left out: it is
  the same for every request); the trigger is a date.
\<close>

record notification =
  request_identifier :: string
  content_title :: string
  content_body :: string
  content_sound :: bool
  trigger_date :: int

text \<open>The calls the program makes to the storage engine and to the notification host.\<close>

datatype call =
    ExecAsync
  | RunInsert string string string
  | RunDelete int
  | GetAll
  | ScheduleNotification string string int
  | CancelScheduledNotification string

text \<open>
  Either collaborator may fail for reasons of its own (storage unavailable, native module
  failing). A set of faults names the calls that reject during one operation.
\<close>

datatype fault =
  ExecFault | InsertFault | DeleteFault | SelectFault | ScheduleFault | CancelFault

text \<open>
  What the JavaScript runtime and the host compute and the program only uses:
  \<^verbatim>\<open>Date.prototype.toISOString\<close> on a valid time value (milliseconds since the epoch), and
  the identifier the notification host generates for a request that carries none (the
  \<open>n\<close>-th such identifier).

  The \<^verbatim>\<open>date\<close> of the component starts as \<^verbatim>\<open>new Date()\<close> and is replaced by what the picker
  delivers, so it is a valid \<^verbatim>\<open>Date\<close>, and the model is of such dates: it writes a date as
  its time value. On an invalid \<^verbatim>\<open>Date\<close>, \<^verbatim>\<open>toISOString\<close> would throw before the
  \<^verbatim>\<open>INSERT\<close> is issued; that run is outside the model, and a property that depends on the
  date being rendered assumes \<open>valid_time_value\<close>.
\<close>

record host =
  toISOString :: "int \<Rightarrow> string"
  uuid :: "nat \<Rightarrow> string"

text \<open>
  The state: the database file, the host's scheduled notifications, the console, the
  calls made so far, and the state of the \<^verbatim>\<open>Content\<close> component (\<^verbatim>\<open>reminders\<close>, \<^verbatim>\<open>title\<close>,
  \<^verbatim>\<open>message\<close>, \<^verbatim>\<open>date\<close>).
\<close>

record world =
  db :: database
  scheduled :: "notification list"
  issued :: nat
  console :: "(string \<times> error option) list"
  calls :: "call list"
  reminders :: "row list"
  title :: string
  message :: string
  date :: int

type_synonym 'a async = "world \<Rightarrow> 'a outcome \<times> world"

section \<open>Awaiting, catching, logging\<close>

definition await :: "'a async \<Rightarrow> ('a \<Rightarrow> 'b async) \<Rightarrow> 'b async" where
  "await m f w =
     (case m w of
        (Resolved x, w') \<Rightarrow> f x w'
      | (Rejected e, w') \<Rightarrow> (Rejected e, w'))"

definition try_catch :: "'a async \<Rightarrow> (error \<Rightarrow> 'a async) \<Rightarrow> 'a async" where
  "try_catch m handler w =
     (case m w of
        (Resolved x, w') \<Rightarrow> (Resolved x, w')
      | (Rejected e, w') \<Rightarrow> handler e w')"

definition console_log :: "string \<Rightarrow> error option \<Rightarrow> unit async" where
  "console_log s e w = (Resolved (), w\<lparr>console := console w @ [(s, e)]\<rparr>)"

definition called :: "call \<Rightarrow> world \<Rightarrow> world" where
  "called c w = w\<lparr>calls := calls w @ [c]\<rparr>"

section \<open>Number.prototype.toString on integers\<close>

text \<open>
  The decimal expansion, with a minus sign for a negative number: what \<^verbatim>\<open>toString\<close> gives
  on a safe integer. (On larger numbers the runtime prints the shortest digits that
  identify the number, and an exponent from \<open>1e21\<close> on.)
\<close>

definition digit_char :: "nat \<Rightarrow> char" where
  "digit_char d = ''0123456789'' ! d"

fun digits :: "nat \<Rightarrow> string" where
  "digits n = (if n < 10 then [digit_char n] else digits (n div 10) @ [digit_char (n mod 10)])"

definition toString :: "int \<Rightarrow> string" where
  "toString i = (if i < 0 then CHR ''-'' # digits (nat (- i)) else digits (nat i))"

section \<open>The storage engine: the four SQL statements of the source\<close>

text \<open>
  \<^verbatim>\<open>PRAGMA journal_mode = WAL; CREATE TABLE IF NOT EXISTS reminders (...)\<close>: an existing
  table is left as it is, a missing one is created empty.
\<close>

definition sql_create :: "database \<Rightarrow> database" where
  "sql_create d =
     d\<lparr>journal := WAL,
       reminders_tbl :=
         (case reminders_tbl d of
            None \<Rightarrow> Some \<lparr>rows = [], sqlite_sequence = 0\<rparr>
          | Some t \<Rightarrow> Some t)\<rparr>"

text \<open>
  \<^verbatim>\<open>INSERT INTO reminders (title, message, date) VALUES (?, ?, ?)\<close>. The id column is
  \<^verbatim>\<open>INTEGER PRIMARY KEY AUTOINCREMENT\<close> and the statement gives no id, so the engine
  assigns one more than the largest rowid the table has ever held: the larger of the
  \<^verbatim>\<open>sqlite_sequence\<close> entry and the rowids present. Once the largest 64-bit rowid has been
  used the insert fails.
\<close>

definition MAX_ROWID :: int where
  "MAX_ROWID = 9223372036854775807"

definition max_rowid :: "table \<Rightarrow> int" where
  "max_rowid t = fold (\<lambda>r m. max (row_id r) m) (rows t) (sqlite_sequence t)"

definition next_rowid :: "table \<Rightarrow> int" where
  "next_rowid t = max_rowid t + 1"

definition sql_insert :: "string \<Rightarrow> string \<Rightarrow> string \<Rightarrow> database \<Rightarrow> error + database" where
  "sql_insert t m d dbs =
     (case reminders_tbl dbs of
        None \<Rightarrow> Inl NoSuchTable
      | Some tb \<Rightarrow>
          if MAX_ROWID \<le> max_rowid tb then Inl DatabaseFull
          else Inr (dbs\<lparr>reminders_tbl := Some
                 \<lparr>rows = rows tb @
                    [\<lparr>row_id = next_rowid tb, row_title = t, row_message = m, row_date = d\<rparr>],
                  sqlite_sequence = next_rowid tb\<rparr>\<rparr>))"

text \<open>\<^verbatim>\<open>DELETE FROM reminders WHERE id = ?\<close>: rows with another id stay, in their order.\<close>

definition sql_delete :: "int \<Rightarrow> database \<Rightarrow> error + database" where
  "sql_delete i dbs =
     (case reminders_tbl dbs of
        None \<Rightarrow> Inl NoSuchTable
      | Some tb \<Rightarrow>
          Inr (dbs\<lparr>reminders_tbl := Some (tb\<lparr>rows := filter (\<lambda>r. row_id r \<noteq> i) (rows tb)\<rparr>)\<rparr>))"

text \<open>\<^verbatim>\<open>SELECT * FROM reminders\<close>.\<close>

definition sql_select :: "database \<Rightarrow> error + row list" where
  "sql_select dbs =
     (case reminders_tbl dbs of
        None \<Rightarrow> Inl NoSuchTable
      | Some tb \<Rightarrow> Inr (rows tb))"

section \<open>The calls of the source\<close>

text \<open>\<^verbatim>\<open>db.execAsync\<close>, \<^verbatim>\<open>db.runAsync\<close> and \<^verbatim>\<open>db.getAllAsync\<close> on the statements above.\<close>

definition execAsync :: "fault set \<Rightarrow> unit async" where
  "execAsync F w =
     (let w1 = called ExecAsync w in
      if ExecFault \<in> F then (Rejected StorageFailure, w1)
      else (Resolved (), w1\<lparr>db := sql_create (db w1)\<rparr>))"

definition runAsync_insert :: "fault set \<Rightarrow> string \<Rightarrow> string \<Rightarrow> string \<Rightarrow> unit async" where
  "runAsync_insert F t m d w =
     (let w1 = called (RunInsert t m d) w in
      if InsertFault \<in> F then (Rejected StorageFailure, w1)
      else case sql_insert t m d (db w1) of
             Inl e \<Rightarrow> (Rejected e, w1)
           | Inr dbs \<Rightarrow> (Resolved (), w1\<lparr>db := dbs\<rparr>))"

definition runAsync_delete :: "fault set \<Rightarrow> int \<Rightarrow> unit async" where
  "runAsync_delete F i w =
     (let w1 = called (RunDelete i) w in
      if DeleteFault \<in> F then (Rejected StorageFailure, w1)
      else case sql_delete i (db w1) of
             Inl e \<Rightarrow> (Rejected e, w1)
           | Inr dbs \<Rightarrow> (Resolved (), w1\<lparr>db := dbs\<rparr>))"

definition getAllAsync :: "fault set \<Rightarrow> row list async" where
  "getAllAsync F w =
     (let w1 = called GetAll w in
      if SelectFault \<in> F then (Rejected StorageFailure, w1)
      else case sql_select (db w1) of
             Inl e \<Rightarrow> (Rejected e, w1)
           | Inr rs \<Rightarrow> (Resolved rs, w1))"

text \<open>
  \<^verbatim>\<open>Notifications.scheduleNotificationAsync({content, trigger})\<close>. The request of the source
  carries no \<^verbatim>\<open>identifier\<close>, so the host generates one, schedules the request under it and
  resolves with it. The source passes the date on as it is; a host that refuses a date
  (one in the past, say) is a host that rejects the call.
\<close>

definition scheduleNotificationAsync ::
    "host \<Rightarrow> fault set \<Rightarrow> string \<Rightarrow> string \<Rightarrow> bool \<Rightarrow> int \<Rightarrow> string async" where
  "scheduleNotificationAsync h F t b s d w =
     (let w1 = called (ScheduleNotification t b d) w in
      if ScheduleFault \<in> F then (Rejected NotificationFailure, w1)
      else (Resolved (uuid h (issued w1)),
            w1\<lparr>scheduled := scheduled w1 @
                  [\<lparr>request_identifier = uuid h (issued w1), content_title = t, content_body = b,
                    content_sound = s, trigger_date = d\<rparr>],
                issued := Suc (issued w1)\<rparr>))"

text \<open>
  \<^verbatim>\<open>Notifications.cancelScheduledNotificationAsync(identifier)\<close>: the host drops the
  scheduled request with that identifier; it resolves as well when there is none.
\<close>

definition cancelScheduledNotificationAsync :: "fault set \<Rightarrow> string \<Rightarrow> unit async" where
  "cancelScheduledNotificationAsync F ident w =
     (let w1 = called (CancelScheduledNotification ident) w in
      if CancelFault \<in> F then (Rejected NotificationFailure, w1)
      else (Resolved (),
            w1\<lparr>scheduled := filter (\<lambda>n. request_identifier n \<noteq> ident) (scheduled w1)\<rparr>))"

section \<open>The operations of App.js\<close>

definition setReminders :: "row list \<Rightarrow> unit async" where
  "setReminders allRows w = (Resolved (), w\<lparr>reminders := allRows\<rparr>)"

definition initializeDatabase :: "fault set \<Rightarrow> unit async" where
  "initializeDatabase F =
     try_catch
       (await (execAsync F) (\<lambda>_. console_log ''Database initialized'' None))
       (\<lambda>e. console_log ''Error while initializing database: '' (Some e))"

definition loadReminders :: "fault set \<Rightarrow> unit async" where
  "loadReminders F =
     try_catch
       (await (getAllAsync F) (\<lambda>allRows. setReminders allRows))
       (\<lambda>e. console_log ''Error while loading reminders: '' (Some e))"

definition scheduleNotification ::
    "host \<Rightarrow> fault set \<Rightarrow> string \<Rightarrow> string \<Rightarrow> int \<Rightarrow> unit async" where
  "scheduleNotification h F t m d =
     try_catch
       (await (scheduleNotificationAsync h F t m True d) (\<lambda>_ w. (Resolved (), w)))
       (\<lambda>e. console_log ''Error scheduling notification: '' (Some e))"

definition addReminder :: "host \<Rightarrow> fault set \<Rightarrow> unit async" where
  "addReminder h F w =
     try_catch
       (await (runAsync_insert F (title w) (message w) (toISOString h (date w)))
          (\<lambda>_. await (scheduleNotification h F (title w) (message w) (date w))
             (\<lambda>_. loadReminders F)))
       (\<lambda>e. console_log ''Error while adding reminder: '' (Some e)) w"

definition deleteReminder :: "fault set \<Rightarrow> int \<Rightarrow> unit async" where
  "deleteReminder F i =
     try_catch
       (await (runAsync_delete F i)
          (\<lambda>_. await (cancelScheduledNotificationAsync F (toString i))
             (\<lambda>_. loadReminders F)))
       (\<lambda>e. console_log ''Error while deleting reminder: '' (Some e))"

section \<open>The screen in use\<close>

text \<open>
  \<^verbatim>\<open>addReminder\<close> reads \<^verbatim>\<open>title\<close>, \<^verbatim>\<open>message\<close> and \<^verbatim>\<open>date\<close> from the component's state. The
  user fills the two text inputs (\<^verbatim>\<open>setTitle\<close>, \<^verbatim>\<open>setMessage\<close>), picks a date (\<^verbatim>\<open>setDate\<close>) and
  presses the add button; pressing the delete icon of a row calls \<^verbatim>\<open>deleteReminder\<close>
  with an id.
\<close>

definition add :: "host \<Rightarrow> fault set \<Rightarrow> string \<Rightarrow> string \<Rightarrow> int \<Rightarrow> unit async" where
  "add h F t m d w = addReminder h F (w\<lparr>title := t, message := m, date := d\<rparr>)"

datatype action = PressAdd string string int | PressDelete int

fun step :: "host \<Rightarrow> fault set \<times> action \<Rightarrow> world \<Rightarrow> world" where
  "step h (F, PressAdd t m d) w = snd (add h F t m d w)"
| "step h (F, PressDelete i) w = snd (deleteReminder F i w)"

definition run :: "host \<Rightarrow> (fault set \<times> action) list \<Rightarrow> world \<Rightarrow> world" where
  "run h acts w = fold (step h) acts w"

text \<open>
  \<^verbatim>\<open>SQLiteProvider\<close> calls \<^verbatim>\<open>initializeDatabase\<close> (its \<^verbatim>\<open>onInit\<close>) each time the application
  starts.
\<close>

definition starts :: "fault set list \<Rightarrow> world \<Rightarrow> world" where
  "starts Fs w = fold (\<lambda>F v. snd (initializeDatabase F v)) Fs w"

section \<open>Notions used to state the properties\<close>

text \<open>The records the store holds.\<close>

definition stored :: "world \<Rightarrow> row list" where
  "stored w = (case reminders_tbl (db w) of None \<Rightarrow> [] | Some tb \<Rightarrow> rows tb)"

text \<open>
  The engine keeps \<^verbatim>\<open>sqlite_sequence\<close> at least as large as every rowid of the table.
\<close>

definition db_ok :: "database \<Rightarrow> bool" where
  "db_ok dbs =
     (case reminders_tbl dbs of
        None \<Rightarrow> True
      | Some tb \<Rightarrow> list_all (\<lambda>r. row_id r \<le> sqlite_sequence tb) (rows tb))"

text \<open>
  A \<^verbatim>\<open>Date\<close> holds a time value of at most 8.64e15 milliseconds either side of the epoch,
  or is invalid; \<^verbatim>\<open>toISOString\<close> renders the valid ones and throws on an invalid one.
\<close>

definition MAX_TIME_VALUE :: int where
  "MAX_TIME_VALUE = 8640000000000000"

definition valid_time_value :: "int \<Rightarrow> bool" where
  "valid_time_value d = (- MAX_TIME_VALUE \<le> d \<and> d \<le> MAX_TIME_VALUE)"

text \<open>
  The rows reach the list as JavaScript numbers, which hold an integer exactly when its
  magnitude is below \<open>2^53\<close> (\<^verbatim>\<open>Number.isSafeInteger\<close>).
\<close>

definition MAX_SAFE_INTEGER :: int where
  "MAX_SAFE_INTEGER = 9007199254740991"

definition safe_integer :: "int \<Rightarrow> bool" where
  "safe_integer i = (- MAX_SAFE_INTEGER \<le> i \<and> i \<le> MAX_SAFE_INTEGER)"

definition safe_ids :: "table \<Rightarrow> bool" where
  "safe_ids tb = (list_all (\<lambda>r. safe_integer (row_id r)) (rows tb) \<and> safe_integer (next_rowid tb))"

text \<open>In a list of calls, \<open>b\<close> is made after the first \<open>a\<close>.\<close>

definition occurs_before :: "call \<Rightarrow> call \<Rightarrow> call list \<Rightarrow> bool" where
  "occurs_before a b cs = (b \<in> set (dropWhile (\<lambda>c. c \<noteq> a) cs))"

text \<open>The calls an operation added to the log.\<close>

definition new_calls :: "world \<Rightarrow> world \<Rightarrow> call list" where
  "new_calls w w' = drop (length (calls w)) (calls w')"

text \<open>
  A host and a freshly installed application for the concrete runs: no database table
  yet, nothing scheduled. The host's date rendering and identifiers are stand-ins.
\<close>

definition sample_host :: host where
  "sample_host =
     \<lparr>toISOString = (\<lambda>t. ''ms:'' @ toString t), uuid = (\<lambda>n. ''uuid-'' @ digits n)\<rparr>"

definition fresh_install :: world where
  "fresh_install =
     \<lparr>db = \<lparr>journal = DELETE_JOURNAL, reminders_tbl = None\<rparr>, scheduled = [], issued = 0,
      console = [], calls = [], reminders = [], title = [], message = [], date = 0\<rparr>"

definition installed :: world where
  "installed = snd (initializeDatabase {} fresh_install)"

definition one_reminder :: world where
  "one_reminder = snd (add sample_host {} ''Pay rent'' ''Due today'' 0 installed)"

section \<open>How each operation runs\<close>

lemmas api_defs = await_def try_catch_def console_log_def called_def execAsync_def
  runAsync_insert_def runAsync_delete_def getAllAsync_def scheduleNotificationAsync_def
  cancelScheduledNotificationAsync_def setReminders_def Let_def

lemmas sql_defs = sql_create_def sql_insert_def sql_delete_def sql_select_def

lemma caught_resolved:
  "fst p = Resolved x \<Longrightarrow>
   (case p of (Resolved y, w') \<Rightarrow> (Resolved y, w') | (Rejected e, w') \<Rightarrow> handler e w') = p"
  by (cases p) auto

lemma loadReminders_resolved: "fst (loadReminders F w) = Resolved ()"
  by (simp add: loadReminders_def api_defs split: sum.splits)

lemma loadReminders_ok:
  "SelectFault \<notin> F \<Longrightarrow> reminders_tbl (db w) = Some tb \<Longrightarrow>
   loadReminders F w = (Resolved (), w\<lparr>calls := calls w @ [GetAll], reminders := rows tb\<rparr>)"
  by (simp add: loadReminders_def api_defs sql_defs)


lemma loadReminders_frame:
  "db (snd (loadReminders F w)) = db w"
  "scheduled (snd (loadReminders F w)) = scheduled w"
  "issued (snd (loadReminders F w)) = issued w"
  by (simp_all add: loadReminders_def api_defs split: sum.splits)

lemma initializeDatabase_resolved: "fst (initializeDatabase F w) = Resolved ()"
  by (simp add: initializeDatabase_def api_defs)

lemma initializeDatabase_db:
  "db (snd (initializeDatabase F w)) = (if ExecFault \<in> F then db w else sql_create (db w))"
  by (simp add: initializeDatabase_def api_defs)

lemma sql_create_keeps: "reminders_tbl dbs = Some tb \<Longrightarrow> reminders_tbl (sql_create dbs) = Some tb"
  by (simp add: sql_create_def)

lemma sql_create_exists: "\<exists>tb. reminders_tbl (sql_create dbs) = Some tb"
  by (simp add: sql_create_def split: option.splits)

lemma sql_create_idem: "sql_create (sql_create dbs) = sql_create dbs"
  by (simp add: sql_create_def split: option.splits)

lemma scheduleNotification_resolved: "fst (scheduleNotification h F t m d w) = Resolved ()"
  by (simp add: scheduleNotification_def api_defs)

lemma scheduleNotification_ok:
  "ScheduleFault \<notin> F \<Longrightarrow>
   scheduleNotification h F t m d w =
     (Resolved (),
      w\<lparr>scheduled := scheduled w @
          [\<lparr>request_identifier = uuid h (issued w), content_title = t, content_body = m,
            content_sound = True, trigger_date = d\<rparr>],
        issued := Suc (issued w),
        calls := calls w @ [ScheduleNotification t m d]\<rparr>)"
  by (simp add: scheduleNotification_def api_defs)

lemma scheduleNotification_failed:
  "ScheduleFault \<in> F \<Longrightarrow>
   scheduleNotification h F t m d w =
     (Resolved (),
      w\<lparr>console := console w @ [(''Error scheduling notification: '', Some NotificationFailure)],
        calls := calls w @ [ScheduleNotification t m d]\<rparr>)"
  by (simp add: scheduleNotification_def api_defs)

lemma scheduleNotification_frame:
  "db (snd (scheduleNotification h F t m d w)) = db w"
  "reminders (snd (scheduleNotification h F t m d w)) = reminders w"
  by (simp_all add: scheduleNotification_def api_defs)

lemma runAsync_insert_cases:
  "runAsync_insert F t m d w =
     (if InsertFault \<in> F then (Rejected StorageFailure, called (RunInsert t m d) w)
      else case sql_insert t m d (db w) of
             Inl e \<Rightarrow> (Rejected e, called (RunInsert t m d) w)
           | Inr dbs \<Rightarrow> (Resolved (), (called (RunInsert t m d) w)\<lparr>db := dbs\<rparr>))"
  by (simp add: runAsync_insert_def called_def Let_def split: sum.splits)

lemma runAsync_insert_rejected:
  "fst (runAsync_insert F t m d w) = Rejected e \<Longrightarrow>
   runAsync_insert F t m d w = (Rejected e, called (RunInsert t m d) w)"
  by (auto simp add: runAsync_insert_cases split: if_splits sum.splits)

lemma runAsync_insert_ok:
  "InsertFault \<notin> F \<Longrightarrow> reminders_tbl (db w) = Some tb \<Longrightarrow> max_rowid tb < MAX_ROWID \<Longrightarrow>
   runAsync_insert F t m d w =
     (Resolved (),
      w\<lparr>db := (db w)\<lparr>reminders_tbl := Some
                 \<lparr>rows = rows tb @
                    [\<lparr>row_id = next_rowid tb, row_title = t, row_message = m, row_date = d\<rparr>],
                  sqlite_sequence = next_rowid tb\<rparr>\<rparr>,
        calls := calls w @ [RunInsert t m d]\<rparr>)"
  by (simp add: runAsync_insert_cases called_def sql_insert_def)

lemma runAsync_delete_rejected:
  "fst (runAsync_delete F i w) = Rejected e \<Longrightarrow>
   runAsync_delete F i w = (Rejected e, called (RunDelete i) w)"
  by (auto simp add: runAsync_delete_def Let_def called_def split: if_splits sum.splits)

lemma runAsync_delete_ok:
  "DeleteFault \<notin> F \<Longrightarrow> reminders_tbl (db w) = Some tb \<Longrightarrow>
   runAsync_delete F i w =
     (Resolved (),
      w\<lparr>db := (db w)\<lparr>reminders_tbl :=
                 Some (tb\<lparr>rows := filter (\<lambda>r. row_id r \<noteq> i) (rows tb)\<rparr>)\<rparr>,
        calls := calls w @ [RunDelete i]\<rparr>)"
  by (simp add: runAsync_delete_def Let_def called_def sql_delete_def)

lemma runAsync_delete_resolved_iff:
  "fst (runAsync_delete F i w) = Resolved () \<longleftrightarrow>
   DeleteFault \<notin> F \<and> reminders_tbl (db w) \<noteq> None"
  by (auto simp add: runAsync_delete_def Let_def called_def sql_delete_def split: option.splits)

lemma addReminder_resolved: "fst (addReminder h F w) = Resolved ()"
proof (cases "runAsync_insert F (title w) (message w) (toISOString h (date w)) w")
  case (Pair r w1)
  show ?thesis
  proof (cases r)
    case (Resolved u)
    obtain w2 where s: "scheduleNotification h F (title w) (message w) (date w) w1 = (Resolved (), w2)"
      using scheduleNotification_resolved [of h F "title w" "message w" "date w" w1]
      by (cases "scheduleNotification h F (title w) (message w) (date w) w1") simp
    obtain w3 where l: "loadReminders F w2 = (Resolved (), w3)"
      using loadReminders_resolved [of F w2] by (cases "loadReminders F w2") simp
    show ?thesis using Pair Resolved s l
      by (simp add: addReminder_def await_def try_catch_def)
  next
    case (Rejected e)
    then show ?thesis using Pair
      by (simp add: addReminder_def await_def try_catch_def console_log_def)
  qed
qed

lemma addReminder_insert_failed:
  assumes "fst (runAsync_insert F (title w) (message w) (toISOString h (date w)) w) = Rejected e"
  shows "addReminder h F w =
     (Resolved (),
      w\<lparr>console := console w @ [(''Error while adding reminder: '', Some e)],
        calls := calls w @ [RunInsert (title w) (message w) (toISOString h (date w))]\<rparr>)"
  using runAsync_insert_rejected [OF assms]
  by (simp add: addReminder_def await_def try_catch_def console_log_def called_def)

lemma addReminder_inserted:
  assumes "InsertFault \<notin> F" "reminders_tbl (db w) = Some tb" "max_rowid tb < MAX_ROWID"
  shows "addReminder h F w =
     loadReminders F (snd (scheduleNotification h F (title w) (message w) (date w)
       (w\<lparr>db := (db w)\<lparr>reminders_tbl := Some
                 \<lparr>rows = rows tb @
                    [\<lparr>row_id = next_rowid tb, row_title = title w, row_message = message w,
                      row_date = toISOString h (date w)\<rparr>],
                  sqlite_sequence = next_rowid tb\<rparr>\<rparr>,
          calls := calls w @ [RunInsert (title w) (message w) (toISOString h (date w))]\<rparr>)))"
proof -
  let ?w1 = "w\<lparr>db := (db w)\<lparr>reminders_tbl := Some
                 \<lparr>rows = rows tb @
                    [\<lparr>row_id = next_rowid tb, row_title = title w, row_message = message w,
                      row_date = toISOString h (date w)\<rparr>],
                  sqlite_sequence = next_rowid tb\<rparr>\<rparr>,
          calls := calls w @ [RunInsert (title w) (message w) (toISOString h (date w))]\<rparr>"
  obtain w2 where s: "scheduleNotification h F (title w) (message w) (date w) ?w1 = (Resolved (), w2)"
    using scheduleNotification_resolved [of h F "title w" "message w" "date w" ?w1]
    by (cases "scheduleNotification h F (title w) (message w) (date w) ?w1") simp
  obtain w3 where l: "loadReminders F w2 = (Resolved (), w3)"
    using loadReminders_resolved [of F w2] by (cases "loadReminders F w2") simp
  show ?thesis
    using runAsync_insert_ok [OF assms, of "title w" "message w" "toISOString h (date w)"] s l
    by (simp add: addReminder_def await_def try_catch_def)
qed

lemma deleteReminder_delete_failed:
  assumes "fst (runAsync_delete F i w) = Rejected e"
  shows "deleteReminder F i w =
     (Resolved (),
      w\<lparr>console := console w @ [(''Error while deleting reminder: '', Some e)],
        calls := calls w @ [RunDelete i]\<rparr>)"
  using runAsync_delete_rejected [OF assms]
  by (simp add: deleteReminder_def await_def try_catch_def console_log_def called_def)

lemma deleteReminder_cancel_failed:
  assumes "DeleteFault \<notin> F" "reminders_tbl (db w) = Some tb" "CancelFault \<in> F"
  shows "deleteReminder F i w =
     (Resolved (),
      w\<lparr>db := (db w)\<lparr>reminders_tbl :=
                 Some (tb\<lparr>rows := filter (\<lambda>r. row_id r \<noteq> i) (rows tb)\<rparr>)\<rparr>,
        console := console w @ [(''Error while deleting reminder: '', Some NotificationFailure)],
        calls := calls w @ [RunDelete i, CancelScheduledNotification (toString i)]\<rparr>)"
  using runAsync_delete_ok [OF assms(1,2), of i] assms(3)
  by (simp add: deleteReminder_def await_def try_catch_def console_log_def called_def
      cancelScheduledNotificationAsync_def Let_def)

lemma deleteReminder_cancelled:
  assumes "DeleteFault \<notin> F" "reminders_tbl (db w) = Some tb" "CancelFault \<notin> F"
  shows "deleteReminder F i w =
     loadReminders F
       (w\<lparr>db := (db w)\<lparr>reminders_tbl :=
                 Some (tb\<lparr>rows := filter (\<lambda>r. row_id r \<noteq> i) (rows tb)\<rparr>)\<rparr>,
          calls := calls w @ [RunDelete i, CancelScheduledNotification (toString i)],
          scheduled := filter (\<lambda>n. request_identifier n \<noteq> toString i) (scheduled w)\<rparr>)"
  using runAsync_delete_ok [OF assms(1,2), of i] assms(3)
  by (simp add: deleteReminder_def await_def try_catch_def called_def
      cancelScheduledNotificationAsync_def Let_def caught_resolved loadReminders_resolved)

lemma runAsync_delete_outcome:
  "(\<exists>e. fst (runAsync_delete F i w) = Rejected e) \<or>
   (DeleteFault \<notin> F \<and> (\<exists>tb. reminders_tbl (db w) = Some tb))"
  by (auto simp add: runAsync_delete_def Let_def called_def sql_delete_def split: option.splits)

lemma deleteReminder_resolved: "fst (deleteReminder F i w) = Resolved ()"
  using runAsync_delete_outcome [of F i w]
  by (cases "CancelFault \<in> F")
     (auto simp add: deleteReminder_delete_failed deleteReminder_cancel_failed
        deleteReminder_cancelled loadReminders_resolved)

lemma deleteReminder_db:
  "db (snd (deleteReminder F i w)) =
     (if DeleteFault \<in> F then db w
      else case reminders_tbl (db w) of
             None \<Rightarrow> db w
           | Some tb \<Rightarrow> (db w)\<lparr>reminders_tbl :=
                 Some (tb\<lparr>rows := filter (\<lambda>r. row_id r \<noteq> i) (rows tb)\<rparr>)\<rparr>)"
proof (cases "\<exists>e. fst (runAsync_delete F i w) = Rejected e")
  case True
  then obtain e where e: "fst (runAsync_delete F i w) = Rejected e" by blast
  have "DeleteFault \<in> F \<or> reminders_tbl (db w) = None"
    using e runAsync_delete_resolved_iff [of F i w] by auto
  then show ?thesis
    by (auto simp add: deleteReminder_delete_failed [OF e])
next
  case False
  then obtain tb where ok: "DeleteFault \<notin> F" "reminders_tbl (db w) = Some tb"
    using runAsync_delete_outcome [of F i w] by blast
  show ?thesis
    using ok
    by (cases "CancelFault \<in> F")
       (simp_all add: deleteReminder_cancel_failed [OF ok] deleteReminder_cancelled [OF ok]
          loadReminders_frame)
qed

section \<open>The sample runs, evaluated\<close>

lemmas run_defs = initializeDatabase_def loadReminders_def scheduleNotification_def
  addReminder_def deleteReminder_def add_def api_defs sql_defs MAX_ROWID_def max_rowid_def
  next_rowid_def toString_def digit_char_def sample_host_def

lemma installed_eq:
  "installed =
     \<lparr>db = \<lparr>journal = WAL, reminders_tbl = Some \<lparr>rows = [], sqlite_sequence = 0\<rparr>\<rparr>,
      scheduled = [], issued = 0, console = [(''Database initialized'', None)],
      calls = [ExecAsync], reminders = [], title = [], message = [], date = 0\<rparr>"
  by (simp add: installed_def fresh_install_def run_defs)

lemma one_reminder_eq:
  "one_reminder =
     \<lparr>db = \<lparr>journal = WAL, reminders_tbl = Some
             \<lparr>rows = [\<lparr>row_id = 1, row_title = ''Pay rent'', row_message = ''Due today'',
                       row_date = ''ms:0''\<rparr>],
              sqlite_sequence = 1\<rparr>\<rparr>,
      scheduled = [\<lparr>request_identifier = ''uuid-0'', content_title = ''Pay rent'',
                    content_body = ''Due today'', content_sound = True, trigger_date = 0\<rparr>],
      issued = 1, console = [(''Database initialized'', None)],
      calls = [ExecAsync, RunInsert ''Pay rent'' ''Due today'' ''ms:0'',
               ScheduleNotification ''Pay rent'' ''Due today'' 0, GetAll],
      reminders = [\<lparr>row_id = 1, row_title = ''Pay rent'', row_message = ''Due today'',
                     row_date = ''ms:0''\<rparr>],
      title = ''Pay rent'', message = ''Due today'', date = 0\<rparr>"
  by (simp add: one_reminder_def installed_eq run_defs)

section \<open>Initialisation\<close>

lemma starts_keeps:
  "reminders_tbl (db w) = Some tb \<Longrightarrow> reminders_tbl (db (starts Fs w)) = Some tb"
  unfolding starts_def
  by (induction Fs arbitrary: w) (simp_all add: initializeDatabase_db sql_create_keeps)

lemma starts_fixed:
  "sql_create (db w) = db w \<Longrightarrow> db (starts Fs w) = db w"
  unfolding starts_def
  by (induction Fs arbitrary: w) (simp_all add: initializeDatabase_db)

text \<open>
  C8. \<^verbatim>\<open>initializeDatabase\<close> is idempotent. However many times it is called, and whether
  or not a call fails, a table that exists keeps its records and its sequence entry; a
  call that succeeds leaves the \<^verbatim>\<open>reminders\<close> table existing, and any number of further
  calls leave the database as that call left it.
\<close>

theorem initializeDatabase_idempotent:
  "(reminders_tbl (db w) = Some tb \<longrightarrow> reminders_tbl (db (starts Fs w)) = Some tb) \<and>
   (ExecFault \<notin> F \<longrightarrow>
      (\<exists>tb'. reminders_tbl (db (snd (initializeDatabase F w))) = Some tb') \<and>
      db (starts Fs (snd (initializeDatabase F w))) = db (snd (initializeDatabase F w)))"
proof (intro conjI impI)
  assume "reminders_tbl (db w) = Some tb"
  then show "reminders_tbl (db (starts Fs w)) = Some tb" by (rule starts_keeps)
next
  assume "ExecFault \<notin> F"
  then show "\<exists>tb'. reminders_tbl (db (snd (initializeDatabase F w))) = Some tb'"
    by (simp add: initializeDatabase_db sql_create_exists)
next
  assume "ExecFault \<notin> F"
  then have "sql_create (db (snd (initializeDatabase F w))) = db (snd (initializeDatabase F w))"
    by (simp add: initializeDatabase_db sql_create_idem)
  then show "db (starts Fs (snd (initializeDatabase F w))) = db (snd (initializeDatabase F w))"
    by (rule starts_fixed)
qed

theorem initializeDatabase_idempotent_witness:
  "reminders_tbl (db one_reminder) =
     Some \<lparr>rows = [\<lparr>row_id = 1, row_title = ''Pay rent'', row_message = ''Due today'',
                     row_date = ''ms:0''\<rparr>], sqlite_sequence = 1\<rparr> \<and>
   ExecFault \<notin> {SelectFault} \<and>
   reminders_tbl (db (starts [{}, {ExecFault}, {}] one_reminder)) =
     Some \<lparr>rows = [\<lparr>row_id = 1, row_title = ''Pay rent'', row_message = ''Due today'',
                     row_date = ''ms:0''\<rparr>], sqlite_sequence = 1\<rparr> \<and>
   db (starts [{}, {ExecFault}, {}] (snd (initializeDatabase {SelectFault} one_reminder))) =
     db (snd (initializeDatabase {SelectFault} one_reminder))"
  using initializeDatabase_idempotent [of one_reminder
      "\<lparr>rows = [\<lparr>row_id = 1, row_title = ''Pay rent'', row_message = ''Due today'',
                     row_date = ''ms:0''\<rparr>], sqlite_sequence = 1\<rparr>"
      "[{}, {ExecFault}, {}]" "{SelectFault}"]
  by (simp add: one_reminder_eq)

section \<open>Deleting\<close>

lemma deleteReminder_db_twice:
  assumes "DeleteFault \<notin> F1"
  shows "db (snd (deleteReminder F2 i (snd (deleteReminder F1 i w)))) =
         db (snd (deleteReminder F1 i w))"
  using assms by (simp add: deleteReminder_db split: option.splits)

lemma deleteReminder_absent:
  assumes "reminders_tbl (db w) = Some tb" "i \<notin> row_id ` set (rows tb)"
  shows "db (snd (deleteReminder F i w)) = db w"
proof -
  have "filter (\<lambda>r. row_id r \<noteq> i) (rows tb) = rows tb"
    using assms(2) by (auto simp add: filter_id_conv)
  then show ?thesis using assms(1) by (simp add: deleteReminder_db)
qed

lemma deleteReminder_quiet:
  assumes "reminders_tbl (db w) = Some tb" "DeleteFault \<notin> F" "CancelFault \<notin> F" "SelectFault \<notin> F"
  shows "console (snd (deleteReminder F i w)) = console w"
  using assms
  by (simp add: deleteReminder_cancelled [OF assms(2,1,3)] loadReminders_ok [OF assms(4)])

text \<open>
  C4. Deleting the same id twice in a row: neither call passes an error to its caller;
  when the first call's \<^verbatim>\<open>DELETE\<close> was not refused by the engine, the second call leaves
  the store exactly as the first left it; deleting an id that no record has leaves the
  store as it was; and with storage and host working, neither call logs an error.
\<close>

theorem deleteReminder_idempotent:
  "fst (deleteReminder F1 i w) = Resolved () \<and>
   fst (deleteReminder F2 i (snd (deleteReminder F1 i w))) = Resolved () \<and>
   (DeleteFault \<notin> F1 \<longrightarrow>
      db (snd (deleteReminder F2 i (snd (deleteReminder F1 i w)))) =
      db (snd (deleteReminder F1 i w))) \<and>
   (reminders_tbl (db w) = Some tb \<and> i \<notin> row_id ` set (rows tb) \<longrightarrow>
      db (snd (deleteReminder F1 i w)) = db w) \<and>
   (reminders_tbl (db w) = Some tb \<and> F1 \<inter> {DeleteFault, CancelFault, SelectFault} = {} \<and>
    F2 \<inter> {DeleteFault, CancelFault, SelectFault} = {} \<longrightarrow>
      console (snd (deleteReminder F2 i (snd (deleteReminder F1 i w)))) = console w)"
proof (intro conjI impI)
  show "fst (deleteReminder F1 i w) = Resolved ()" by (rule deleteReminder_resolved)
  show "fst (deleteReminder F2 i (snd (deleteReminder F1 i w))) = Resolved ()"
    by (rule deleteReminder_resolved)
next
  assume "DeleteFault \<notin> F1"
  then show "db (snd (deleteReminder F2 i (snd (deleteReminder F1 i w)))) =
      db (snd (deleteReminder F1 i w))" by (rule deleteReminder_db_twice)
next
  assume "reminders_tbl (db w) = Some tb \<and> i \<notin> row_id ` set (rows tb)"
  then show "db (snd (deleteReminder F1 i w)) = db w"
    using deleteReminder_absent by blast
next
  assume a: "reminders_tbl (db w) = Some tb \<and> F1 \<inter> {DeleteFault, CancelFault, SelectFault} = {} \<and>
    F2 \<inter> {DeleteFault, CancelFault, SelectFault} = {}"
  then have f1: "DeleteFault \<notin> F1" "CancelFault \<notin> F1" "SelectFault \<notin> F1"
    and f2: "DeleteFault \<notin> F2" "CancelFault \<notin> F2" "SelectFault \<notin> F2"
    and tb: "reminders_tbl (db w) = Some tb" by auto
  have c1: "console (snd (deleteReminder F1 i w)) = console w"
    by (rule deleteReminder_quiet [OF tb f1])
  obtain tb' where tb': "reminders_tbl (db (snd (deleteReminder F1 i w))) = Some tb'"
    using tb f1(1) by (simp add: deleteReminder_db)
  show "console (snd (deleteReminder F2 i (snd (deleteReminder F1 i w)))) = console w"
    using deleteReminder_quiet [OF tb' f2] c1 by simp
qed

theorem deleteReminder_idempotent_witness:
  "DeleteFault \<notin> {} \<and>
   reminders_tbl (db one_reminder) =
     Some \<lparr>rows = [\<lparr>row_id = 1, row_title = ''Pay rent'', row_message = ''Due today'',
                     row_date = ''ms:0''\<rparr>], sqlite_sequence = 1\<rparr> \<and>
   (7::int) \<notin> row_id ` set [\<lparr>row_id = 1, row_title = ''Pay rent'', row_message = ''Due today'',
                     row_date = ''ms:0''\<rparr>] \<and>
   fst (deleteReminder {} 1 one_reminder) = Resolved () \<and>
   fst (deleteReminder {} 1 (snd (deleteReminder {} 1 one_reminder))) = Resolved () \<and>
   stored (snd (deleteReminder {} 1 one_reminder)) = [] \<and>
   db (snd (deleteReminder {} 1 (snd (deleteReminder {} 1 one_reminder)))) =
     db (snd (deleteReminder {} 1 one_reminder)) \<and>
   db (snd (deleteReminder {} 7 one_reminder)) = db one_reminder \<and>
   console (snd (deleteReminder {} 1 (snd (deleteReminder {} 1 one_reminder)))) =
     console one_reminder"
  using deleteReminder_idempotent [of "{}" 1 one_reminder "{}"
      "\<lparr>rows = [\<lparr>row_id = 1, row_title = ''Pay rent'', row_message = ''Due today'',
                     row_date = ''ms:0''\<rparr>], sqlite_sequence = 1\<rparr>"]
    deleteReminder_idempotent [of "{}" 7 one_reminder "{}"
      "\<lparr>rows = [\<lparr>row_id = 1, row_title = ''Pay rent'', row_message = ''Due today'',
                     row_date = ''ms:0''\<rparr>], sqlite_sequence = 1\<rparr>"]
  by (simp add: one_reminder_eq stored_def deleteReminder_db)

text \<open>
  C10. When the first store statement of an operation is rejected (the \<^verbatim>\<open>INSERT\<close> of
  \<^verbatim>\<open>addReminder\<close>, the \<^verbatim>\<open>DELETE\<close> of \<^verbatim>\<open>deleteReminder\<close>), that statement is the only call the
  operation makes: nothing is armed or cancelled, the scheduled notifications and the
  in-memory list are what they were.
\<close>

theorem store_failure_skips_rest:
  "(fst (runAsync_insert F (title w) (message w) (toISOString h (date w)) w) = Rejected e \<longrightarrow>
      new_calls w (snd (addReminder h F w)) =
        [RunInsert (title w) (message w) (toISOString h (date w))] \<and>
      scheduled (snd (addReminder h F w)) = scheduled w \<and>
      reminders (snd (addReminder h F w)) = reminders w \<and>
      db (snd (addReminder h F w)) = db w) \<and>
   (fst (runAsync_delete F i w) = Rejected e' \<longrightarrow>
      new_calls w (snd (deleteReminder F i w)) = [RunDelete i] \<and>
      scheduled (snd (deleteReminder F i w)) = scheduled w \<and>
      reminders (snd (deleteReminder F i w)) = reminders w \<and>
      db (snd (deleteReminder F i w)) = db w)"
  by (simp add: addReminder_insert_failed deleteReminder_delete_failed new_calls_def)

theorem store_failure_skips_rest_witness:
  "fst (runAsync_insert {InsertFault} (title one_reminder) (message one_reminder)
          (toISOString sample_host (date one_reminder)) one_reminder) = Rejected StorageFailure \<and>
   fst (runAsync_delete {} 1 fresh_install) = Rejected NoSuchTable \<and>
   new_calls one_reminder (snd (addReminder sample_host {InsertFault} one_reminder)) =
     [RunInsert ''Pay rent'' ''Due today'' ''ms:0''] \<and>
   scheduled (snd (addReminder sample_host {InsertFault} one_reminder)) = scheduled one_reminder \<and>
   reminders (snd (addReminder sample_host {InsertFault} one_reminder)) = reminders one_reminder \<and>
   new_calls fresh_install (snd (deleteReminder {} 1 fresh_install)) = [RunDelete 1] \<and>
   scheduled (snd (deleteReminder {} 1 fresh_install)) = [] \<and>
   reminders (snd (deleteReminder {} 1 fresh_install)) = []"
  using store_failure_skips_rest [of "{InsertFault}" one_reminder sample_host StorageFailure 1 NoSuchTable]
    store_failure_skips_rest [of "{}" fresh_install sample_host StorageFailure 1 NoSuchTable]
  by (simp add: one_reminder_eq fresh_install_def runAsync_insert_cases runAsync_delete_def
      called_def sql_delete_def sample_host_def toString_def digit_char_def)

text \<open>
  C2, as the code has it. \<^verbatim>\<open>deleteReminder\<close> first removes the record from the store and
  only then cancels the notification tagged with the id's string form, and refreshes
  last; a rejected step ends the sequence there.
\<close>

theorem deleteReminder_call_order:
  "new_calls w (snd (deleteReminder F i w)) =
     (if fst (runAsync_delete F i w) \<noteq> Resolved () then [RunDelete i]
      else if CancelFault \<in> F then [RunDelete i, CancelScheduledNotification (toString i)]
      else [RunDelete i, CancelScheduledNotification (toString i), GetAll])"
proof (cases "fst (runAsync_delete F i w) = Resolved ()")
  case False
  then obtain e where "fst (runAsync_delete F i w) = Rejected e"
    by (cases "fst (runAsync_delete F i w)") auto
  then show ?thesis using False
    by (simp add: deleteReminder_delete_failed new_calls_def)
next
  case True
  then obtain tb where ok: "DeleteFault \<notin> F" "reminders_tbl (db w) = Some tb"
    by (auto simp add: runAsync_delete_resolved_iff)
  have "calls (snd (loadReminders F v)) = calls v @ [GetAll]" for v
    by (simp add: loadReminders_def api_defs split: sum.splits)
  then show ?thesis using True
    by (cases "CancelFault \<in> F")
       (simp_all add: deleteReminder_cancel_failed [OF ok] deleteReminder_cancelled [OF ok]
          new_calls_def)
qed

theorem deleteReminder_call_order_witness:
  "fst (runAsync_delete {} 1 one_reminder) = Resolved () \<and> CancelFault \<notin> {} \<and>
   new_calls one_reminder (snd (deleteReminder {} 1 one_reminder)) =
     [RunDelete 1, CancelScheduledNotification ''1'', GetAll]"
  using deleteReminder_call_order [of one_reminder "{}" 1]
  by (simp add: runAsync_delete_resolved_iff one_reminder_eq toString_def digit_char_def)

text \<open>
  C2, as the specification states it (cancel first, then remove the record), fails:
  deleting reminder 1 issues the \<^verbatim>\<open>DELETE\<close> before the cancellation.
\<close>

theorem cancel_before_delete_counterexample:
  "\<not> occurs_before (CancelScheduledNotification (toString 1)) (RunDelete 1)
       (new_calls one_reminder (snd (deleteReminder {} 1 one_reminder))) \<and>
   occurs_before (RunDelete 1) (CancelScheduledNotification (toString 1))
       (new_calls one_reminder (snd (deleteReminder {} 1 one_reminder)))"
  by (simp add: occurs_before_def new_calls_def one_reminder_eq run_defs)

lemma cancel_nothing_scheduled:
  assumes "toString i \<notin> request_identifier ` set (scheduled w)" "CancelFault \<notin> F"
  shows "cancelScheduledNotificationAsync F (toString i) w =
           (Resolved (), called (CancelScheduledNotification (toString i)) w)"
proof -
  have "filter (\<lambda>n. request_identifier n \<noteq> toString i) (scheduled w) = scheduled w"
    using assms(1) by (force simp add: filter_id_conv)
  then show ?thesis using assms(2)
    by (simp add: cancelScheduledNotificationAsync_def called_def Let_def)
qed

text \<open>
  C9. Cancelling for an id under whose string form nothing is scheduled is a success:
  \<^verbatim>\<open>deleteReminder\<close> never passes an error to its caller, the cancellation it issues
  resolves and changes nothing but the call log, and the delete flow goes on to the
  refresh without logging an error.
\<close>

theorem cancel_without_armed_notification:
  "fst (deleteReminder F i w) = Resolved () \<and>
   (toString i \<notin> request_identifier ` set (scheduled w) \<and> CancelFault \<notin> F \<longrightarrow>
      cancelScheduledNotificationAsync F (toString i) w =
        (Resolved (), called (CancelScheduledNotification (toString i)) w)) \<and>
   (toString i \<notin> request_identifier ` set (scheduled w) \<and> CancelFault \<notin> F \<and>
    fst (runAsync_delete F i w) = Resolved () \<and> SelectFault \<notin> F \<longrightarrow>
      console (snd (deleteReminder F i w)) = console w \<and>
      scheduled (snd (deleteReminder F i w)) = scheduled w \<and>
      new_calls w (snd (deleteReminder F i w)) =
        [RunDelete i, CancelScheduledNotification (toString i), GetAll])"
proof (intro conjI impI)
  show "fst (deleteReminder F i w) = Resolved ()" by (rule deleteReminder_resolved)
next
  assume "toString i \<notin> request_identifier ` set (scheduled w) \<and> CancelFault \<notin> F"
  then show "cancelScheduledNotificationAsync F (toString i) w =
        (Resolved (), called (CancelScheduledNotification (toString i)) w)"
    using cancel_nothing_scheduled by blast
next
  assume a: "toString i \<notin> request_identifier ` set (scheduled w) \<and> CancelFault \<notin> F \<and>
    fst (runAsync_delete F i w) = Resolved () \<and> SelectFault \<notin> F"
  then obtain tb where ok: "DeleteFault \<notin> F" "reminders_tbl (db w) = Some tb"
    by (auto simp add: runAsync_delete_resolved_iff)
  have f: "filter (\<lambda>n. request_identifier n \<noteq> toString i) (scheduled w) = scheduled w"
    using a by (force simp add: filter_id_conv)
  have c: "CancelFault \<notin> F" and s: "SelectFault \<notin> F" using a by auto
  have eq: "deleteReminder F i w =
     (Resolved (),
      w\<lparr>db := (db w)\<lparr>reminders_tbl :=
                 Some (tb\<lparr>rows := filter (\<lambda>r. row_id r \<noteq> i) (rows tb)\<rparr>)\<rparr>,
        calls := calls w @ [RunDelete i, CancelScheduledNotification (toString i)],
        scheduled := scheduled w,
        calls := calls w @ [RunDelete i, CancelScheduledNotification (toString i), GetAll],
        reminders := filter (\<lambda>r. row_id r \<noteq> i) (rows tb)\<rparr>)"
    by (simp add: deleteReminder_cancelled [OF ok c] loadReminders_ok [OF s] f)
  show "console (snd (deleteReminder F i w)) = console w"
    and "scheduled (snd (deleteReminder F i w)) = scheduled w"
    and "new_calls w (snd (deleteReminder F i w)) =
        [RunDelete i, CancelScheduledNotification (toString i), GetAll]"
    by (simp_all add: eq new_calls_def)
qed

theorem cancel_without_armed_notification_witness:
  "toString 5 \<notin> request_identifier ` set (scheduled installed) \<and> CancelFault \<notin> {} \<and>
   fst (runAsync_delete {} 5 installed) = Resolved () \<and> SelectFault \<notin> {} \<and>
   fst (deleteReminder {} 5 installed) = Resolved () \<and>
   cancelScheduledNotificationAsync {} ''5'' installed =
     (Resolved (), called (CancelScheduledNotification ''5'') installed) \<and>
   console (snd (deleteReminder {} 5 installed)) = console installed \<and>
   scheduled (snd (deleteReminder {} 5 installed)) = [] \<and>
   new_calls installed (snd (deleteReminder {} 5 installed)) =
     [RunDelete 5, CancelScheduledNotification ''5'', GetAll]"
  using cancel_without_armed_notification [of "{}" 5 installed]
  by (simp add: runAsync_delete_resolved_iff installed_eq toString_def digit_char_def)

section \<open>Adding\<close>

lemma fold_max_ge_start: "k \<le> fold (\<lambda>r m. max (row_id r) m) rs (k::int)"
proof (induction rs arbitrary: k)
  case Nil
  show ?case by simp
next
  case (Cons r rs)
  have "k \<le> max (row_id r) k" by simp
  also have "\<dots> \<le> fold (\<lambda>r m. max (row_id r) m) rs (max (row_id r) k)" by (rule Cons.IH)
  finally show ?case by simp
qed

lemma fold_max_ge_row:
  "r \<in> set rs \<Longrightarrow> row_id r \<le> fold (\<lambda>r m. max (row_id r) m) rs (k::int)"
proof (induction rs arbitrary: k)
  case Nil
  then show ?case by simp
next
  case (Cons a rs)
  show ?case
  proof (cases "r = a")
    case True
    have "row_id a \<le> max (row_id a) k" by simp
    also have "\<dots> \<le> fold (\<lambda>r m. max (row_id r) m) rs (max (row_id a) k)"
      by (rule fold_max_ge_start)
    finally show ?thesis using True by simp
  next
    case False
    then have "r \<in> set rs" using Cons.prems by simp
    then show ?thesis using Cons.IH by simp
  qed
qed

lemma max_rowid_ge_sequence: "sqlite_sequence tb \<le> max_rowid tb"
  by (simp add: max_rowid_def fold_max_ge_start)

lemma max_rowid_ge_row: "r \<in> set (rows tb) \<Longrightarrow> row_id r \<le> max_rowid tb"
  by (simp add: max_rowid_def fold_max_ge_row)

lemma next_rowid_unused: "next_rowid tb \<notin> row_id ` set (rows tb)"
proof
  assume "next_rowid tb \<in> row_id ` set (rows tb)"
  then obtain r where "r \<in> set (rows tb)" "row_id r = next_rowid tb" by auto
  then show False using max_rowid_ge_row [of r tb] by (simp add: next_rowid_def)
qed

lemma addReminder_stored:
  assumes "InsertFault \<notin> F" "reminders_tbl (db w) = Some tb" "max_rowid tb < MAX_ROWID"
  shows "db (snd (addReminder h F w)) =
     (db w)\<lparr>reminders_tbl := Some
        \<lparr>rows = rows tb @
           [\<lparr>row_id = next_rowid tb, row_title = title w, row_message = message w,
             row_date = toISOString h (date w)\<rparr>],
         sqlite_sequence = next_rowid tb\<rparr>\<rparr>"
  by (simp add: addReminder_inserted [OF assms] loadReminders_frame scheduleNotification_frame)

lemma addReminder_listed:
  assumes "InsertFault \<notin> F" "reminders_tbl (db w) = Some tb" "max_rowid tb < MAX_ROWID"
    and "SelectFault \<notin> F"
  shows "reminders (snd (addReminder h F w)) =
     rows tb @ [\<lparr>row_id = next_rowid tb, row_title = title w, row_message = message w,
                 row_date = toISOString h (date w)\<rparr>]"
proof -
  let ?w1 = "w\<lparr>db := (db w)\<lparr>reminders_tbl := Some
                 \<lparr>rows = rows tb @
                    [\<lparr>row_id = next_rowid tb, row_title = title w, row_message = message w,
                      row_date = toISOString h (date w)\<rparr>],
                  sqlite_sequence = next_rowid tb\<rparr>\<rparr>,
          calls := calls w @ [RunInsert (title w) (message w) (toISOString h (date w))]\<rparr>"
  let ?w2 = "snd (scheduleNotification h F (title w) (message w) (date w) ?w1)"
  have "reminders_tbl (db ?w2) = Some
                 \<lparr>rows = rows tb @
                    [\<lparr>row_id = next_rowid tb, row_title = title w, row_message = message w,
                      row_date = toISOString h (date w)\<rparr>],
                  sqlite_sequence = next_rowid tb\<rparr>"
    by (simp add: scheduleNotification_frame)
  from loadReminders_ok [OF assms(4) this] show ?thesis
    by (simp add: addReminder_inserted [OF assms(1-3)])
qed

lemma addReminder_console:
  assumes "InsertFault \<notin> F" "reminders_tbl (db w) = Some tb" "max_rowid tb < MAX_ROWID"
    and "SelectFault \<notin> F"
  shows "console (snd (addReminder h F w)) =
     console w @ (if ScheduleFault \<in> F
                  then [(''Error scheduling notification: '', Some NotificationFailure)] else [])"
proof -
  let ?w1 = "w\<lparr>db := (db w)\<lparr>reminders_tbl := Some
                 \<lparr>rows = rows tb @
                    [\<lparr>row_id = next_rowid tb, row_title = title w, row_message = message w,
                      row_date = toISOString h (date w)\<rparr>],
                  sqlite_sequence = next_rowid tb\<rparr>\<rparr>,
          calls := calls w @ [RunInsert (title w) (message w) (toISOString h (date w))]\<rparr>"
  let ?w2 = "snd (scheduleNotification h F (title w) (message w) (date w) ?w1)"
  have tb2: "reminders_tbl (db ?w2) = Some
                 \<lparr>rows = rows tb @
                    [\<lparr>row_id = next_rowid tb, row_title = title w, row_message = message w,
                      row_date = toISOString h (date w)\<rparr>],
                  sqlite_sequence = next_rowid tb\<rparr>"
    by (simp add: scheduleNotification_frame)
  have "console ?w2 = console w @ (if ScheduleFault \<in> F
                  then [(''Error scheduling notification: '', Some NotificationFailure)] else [])"
    by (simp add: scheduleNotification_ok scheduleNotification_failed)
  then show ?thesis
    using loadReminders_ok [OF assms(4) tb2]
    by (simp add: addReminder_inserted [OF assms(1-3)])
qed

lemma safe_ids_room: "safe_ids tb \<Longrightarrow> max_rowid tb < MAX_ROWID"
  by (simp add: safe_ids_def safe_integer_def next_rowid_def MAX_SAFE_INTEGER_def MAX_ROWID_def)

text \<open>
  C3. For any title, any message and any date that is a valid time value (empty strings
  and dates in the past included; no value is inspected), with the table present, its
  ids and the next one safe integers, and the engine accepting the \<^verbatim>\<open>INSERT\<close> and the
  \<^verbatim>\<open>SELECT\<close>: adding resolves, logs no error of the add flow, and the list read back is
  the former records followed by one record with exactly that title, that message and the
  ISO string of that date, under an id that no record has and that is larger than every
  id the table has ever held.
\<close>

theorem add_then_list:
  assumes "reminders_tbl (db w) = Some tb" and "safe_ids tb" and "valid_time_value d"
    and "InsertFault \<notin> F" and "SelectFault \<notin> F"
  shows "fst (add h F t m d w) = Resolved () \<and>
     reminders (snd (add h F t m d w)) =
       rows tb @ [\<lparr>row_id = next_rowid tb, row_title = t, row_message = m,
                   row_date = toISOString h d\<rparr>] \<and>
     stored (snd (add h F t m d w)) = reminders (snd (add h F t m d w)) \<and>
     next_rowid tb \<notin> row_id ` set (rows tb) \<and> sqlite_sequence tb < next_rowid tb \<and>
     console (snd (add h F t m d w)) =
       console w @ (if ScheduleFault \<in> F
                    then [(''Error scheduling notification: '', Some NotificationFailure)]
                    else [])"
proof -
  let ?v = "w\<lparr>title := t, message := m, date := d\<rparr>"
  have room: "max_rowid tb < MAX_ROWID" using assms(2) by (rule safe_ids_room)
  have tb: "reminders_tbl (db ?v) = Some tb" using assms(1) by simp
  have l: "reminders (snd (addReminder h F ?v)) =
       rows tb @ [\<lparr>row_id = next_rowid tb, row_title = t, row_message = m,
                   row_date = toISOString h d\<rparr>]"
    using addReminder_listed [OF assms(4) tb room assms(5), of h] by simp
  have s: "stored (snd (addReminder h F ?v)) =
       rows tb @ [\<lparr>row_id = next_rowid tb, row_title = t, row_message = m,
                   row_date = toISOString h d\<rparr>]"
    using addReminder_stored [OF assms(4) tb room, of h] by (simp add: stored_def)
  have c: "console (snd (addReminder h F ?v)) =
       console w @ (if ScheduleFault \<in> F
                    then [(''Error scheduling notification: '', Some NotificationFailure)]
                    else [])"
    using addReminder_console [OF assms(4) tb room assms(5), of h] by simp
  have "sqlite_sequence tb < next_rowid tb"
    using max_rowid_ge_sequence [of tb] by (simp add: next_rowid_def)
  then show ?thesis
    using l s c next_rowid_unused [of tb] addReminder_resolved [of h F ?v]
    by (simp add: add_def)
qed

theorem add_then_list_witness:
  "reminders_tbl (db one_reminder) =
     Some \<lparr>rows = [\<lparr>row_id = 1, row_title = ''Pay rent'', row_message = ''Due today'',
                     row_date = ''ms:0''\<rparr>], sqlite_sequence = 1\<rparr> \<and>
   safe_ids \<lparr>rows = [\<lparr>row_id = 1, row_title = ''Pay rent'', row_message = ''Due today'',
                     row_date = ''ms:0''\<rparr>], sqlite_sequence = 1\<rparr> \<and>
   valid_time_value (- 86400000) \<and>
   InsertFault \<notin> {} \<and> SelectFault \<notin> {} \<and>
   fst (add sample_host {} [] [] (- 86400000) one_reminder) = Resolved () \<and>
   reminders (snd (add sample_host {} [] [] (- 86400000) one_reminder)) =
     [\<lparr>row_id = 1, row_title = ''Pay rent'', row_message = ''Due today'', row_date = ''ms:0''\<rparr>,
      \<lparr>row_id = 2, row_title = [], row_message = [], row_date = ''ms:-86400000''\<rparr>] \<and>
   console (snd (add sample_host {} [] [] (- 86400000) one_reminder)) = console one_reminder"
proof -
  have tb: "reminders_tbl (db one_reminder) =
     Some \<lparr>rows = [\<lparr>row_id = 1, row_title = ''Pay rent'', row_message = ''Due today'',
                     row_date = ''ms:0''\<rparr>], sqlite_sequence = 1\<rparr>"
    by (simp add: one_reminder_eq)
  have safe: "safe_ids \<lparr>rows = [\<lparr>row_id = 1, row_title = ''Pay rent'',
       row_message = ''Due today'', row_date = ''ms:0''\<rparr>], sqlite_sequence = 1\<rparr>"
    by (simp add: safe_ids_def safe_integer_def MAX_SAFE_INTEGER_def next_rowid_def
        max_rowid_def)
  have past: "valid_time_value (- 86400000)"
    by (simp add: valid_time_value_def MAX_TIME_VALUE_def)
  have f: "InsertFault \<notin> {}" "SelectFault \<notin> {}" by simp_all
  have iso: "toISOString sample_host (- 86400000) = ''ms:-86400000''"
    by (simp add: sample_host_def toString_def digit_char_def)
  show ?thesis
    using add_then_list [OF tb safe past f, of sample_host "[]" "[]"] tb safe past iso
    by (simp add: next_rowid_def max_rowid_def)
qed

lemma addReminder_arming_failed:
  assumes "InsertFault \<notin> F" "reminders_tbl (db w) = Some tb" "max_rowid tb < MAX_ROWID"
    and "ScheduleFault \<in> F"
  shows "addReminder h F w =
     loadReminders F
       (w\<lparr>db := (db w)\<lparr>reminders_tbl := Some
                 \<lparr>rows = rows tb @
                    [\<lparr>row_id = next_rowid tb, row_title = title w, row_message = message w,
                      row_date = toISOString h (date w)\<rparr>],
                  sqlite_sequence = next_rowid tb\<rparr>\<rparr>,
          calls := calls w @ [RunInsert (title w) (message w) (toISOString h (date w))],
          console := console w @
            [(''Error scheduling notification: '', Some NotificationFailure)],
          calls := calls w @ [RunInsert (title w) (message w) (toISOString h (date w)),
                              ScheduleNotification (title w) (message w) (date w)]\<rparr>)"
  by (simp add: addReminder_inserted [OF assms(1-3)] scheduleNotification_failed [OF assms(4)])

lemma loadReminders_calls: "calls (snd (loadReminders F w)) = calls w @ [GetAll]"
  by (simp add: loadReminders_def api_defs split: sum.splits)

lemma loadReminders_console_mono: "set (console w) \<subseteq> set (console (snd (loadReminders F w)))"
  by (auto simp add: loadReminders_def api_defs split: sum.splits)

text \<open>
  C7. When the \<^verbatim>\<open>INSERT\<close> succeeded and arming the notification fails, the new record
  stays in the store: the failure is logged, nothing is scheduled, and the calls of the
  add flow are the insert, the scheduling attempt and the refresh, with no removal.
\<close>

theorem add_keeps_record_when_arming_fails:
  assumes "reminders_tbl (db w) = Some tb" and "max_rowid tb < MAX_ROWID"
    and "InsertFault \<notin> F" and "ScheduleFault \<in> F"
  shows "stored (snd (addReminder h F w)) =
       rows tb @ [\<lparr>row_id = next_rowid tb, row_title = title w, row_message = message w,
                   row_date = toISOString h (date w)\<rparr>] \<and>
     scheduled (snd (addReminder h F w)) = scheduled w \<and>
     new_calls w (snd (addReminder h F w)) =
       [RunInsert (title w) (message w) (toISOString h (date w)),
        ScheduleNotification (title w) (message w) (date w), GetAll] \<and>
     (''Error scheduling notification: '', Some NotificationFailure)
       \<in> set (console (snd (addReminder h F w)))"
proof -
  have "stored (snd (addReminder h F w)) =
       rows tb @ [\<lparr>row_id = next_rowid tb, row_title = title w, row_message = message w,
                   row_date = toISOString h (date w)\<rparr>]"
    by (simp add: stored_def addReminder_stored [OF assms(3,1,2)])
  moreover have "scheduled (snd (addReminder h F w)) = scheduled w"
    by (simp add: addReminder_arming_failed [OF assms(3,1,2,4)] loadReminders_frame)
  moreover have "new_calls w (snd (addReminder h F w)) =
       [RunInsert (title w) (message w) (toISOString h (date w)),
        ScheduleNotification (title w) (message w) (date w), GetAll]"
    by (simp add: addReminder_arming_failed [OF assms(3,1,2,4)] loadReminders_calls new_calls_def)
  moreover have "(''Error scheduling notification: '', Some NotificationFailure)
       \<in> set (console (snd (addReminder h F w)))"
    unfolding addReminder_arming_failed [OF assms(3,1,2,4)]
    by (rule subsetD [OF loadReminders_console_mono]) simp
  ultimately show ?thesis by blast
qed

theorem add_keeps_record_when_arming_fails_witness:
  "reminders_tbl (db installed) = Some \<lparr>rows = [], sqlite_sequence = 0\<rparr> \<and>
   max_rowid \<lparr>rows = [], sqlite_sequence = 0\<rparr> < MAX_ROWID \<and>
   InsertFault \<notin> {ScheduleFault} \<and> ScheduleFault \<in> {ScheduleFault} \<and>
   stored (snd (addReminder sample_host {ScheduleFault} installed)) =
     [\<lparr>row_id = 1, row_title = [], row_message = [], row_date = ''ms:0''\<rparr>] \<and>
   scheduled (snd (addReminder sample_host {ScheduleFault} installed)) = [] \<and>
   new_calls installed (snd (addReminder sample_host {ScheduleFault} installed)) =
     [RunInsert [] [] ''ms:0'', ScheduleNotification [] [] 0, GetAll]"
proof -
  have tb: "reminders_tbl (db installed) = Some \<lparr>rows = [], sqlite_sequence = 0\<rparr>"
    by (simp add: installed_eq)
  have room: "max_rowid \<lparr>rows = [], sqlite_sequence = 0\<rparr> < MAX_ROWID"
    by (simp add: max_rowid_def MAX_ROWID_def)
  have f: "InsertFault \<notin> {ScheduleFault}" "ScheduleFault \<in> {ScheduleFault}" by simp_all
  show ?thesis
    using add_keeps_record_when_arming_fails [OF tb room f, of sample_host] tb room
    by (simp add: next_rowid_def max_rowid_def installed_eq sample_host_def toString_def
        digit_char_def)
qed

text \<open>
  The request armed by \<^verbatim>\<open>addReminder\<close> is filed under the identifier the host generates;
  \<^verbatim>\<open>deleteReminder\<close> has the host drop only requests whose identifier is the string form
  of the id. Unless the two happen to coincide, the request armed by an add outlives any
  delete that follows it.
\<close>

lemma addReminder_arms_under_host_identifier:
  assumes "InsertFault \<notin> F" "reminders_tbl (db w) = Some tb" "max_rowid tb < MAX_ROWID"
    and "ScheduleFault \<notin> F"
  shows "scheduled (snd (addReminder h F w)) =
     scheduled w @
       [\<lparr>request_identifier = uuid h (issued w), content_title = title w,
         content_body = message w, content_sound = True, trigger_date = date w\<rparr>]"
  by (simp add: addReminder_inserted [OF assms(1-3)] scheduleNotification_ok [OF assms(4)]
      loadReminders_frame)

lemma deleteReminder_keeps_other_identifiers:
  assumes "n \<in> set (scheduled w)" "request_identifier n \<noteq> toString i"
  shows "n \<in> set (scheduled (snd (deleteReminder F i w)))"
proof (cases "\<exists>e. fst (runAsync_delete F i w) = Rejected e")
  case True
  then obtain e where e: "fst (runAsync_delete F i w) = Rejected e" by blast
  show ?thesis using assms(1) by (simp add: deleteReminder_delete_failed [OF e])
next
  case False
  then obtain tb where ok: "DeleteFault \<notin> F" "reminders_tbl (db w) = Some tb"
    using runAsync_delete_outcome [of F i w] by blast
  show ?thesis
    using assms
    by (cases "CancelFault \<in> F")
       (simp_all add: deleteReminder_cancel_failed [OF ok] deleteReminder_cancelled [OF ok]
          loadReminders_frame)
qed

lemma armed_notification_survives_delete:
  assumes "InsertFault \<notin> F" "reminders_tbl (db w) = Some tb" "max_rowid tb < MAX_ROWID"
    and "ScheduleFault \<notin> F" and "uuid h (issued w) \<noteq> toString i"
  shows "\<lparr>request_identifier = uuid h (issued w), content_title = title w,
           content_body = message w, content_sound = True, trigger_date = date w\<rparr>
         \<in> set (scheduled (snd (deleteReminder F' i (snd (addReminder h F w)))))"
proof (rule deleteReminder_keeps_other_identifiers)
  show "\<lparr>request_identifier = uuid h (issued w), content_title = title w,
           content_body = message w, content_sound = True, trigger_date = date w\<rparr>
         \<in> set (scheduled (snd (addReminder h F w)))"
    by (simp add: addReminder_arms_under_host_identifier [OF assms(1-4)])
  show "request_identifier \<lparr>request_identifier = uuid h (issued w), content_title = title w,
           content_body = message w, content_sound = True, trigger_date = date w\<rparr>
         \<noteq> toString i"
    using assms(5) by simp
qed

text \<open>
  C1. Adding a reminder on a fresh installation and deleting it at once: the request
  armed by the add is held under the identifier the host generated, not under the string
  form \<open>''1''\<close> of the new id, so the cancellation of \<open>''1''\<close> leaves it scheduled
  although the record is gone and no error was logged.
\<close>

theorem add_then_delete_leaves_notification:
  "stored (snd (add sample_host {} ''Pay rent'' ''Due today'' 0 installed)) =
     [\<lparr>row_id = 1, row_title = ''Pay rent'', row_message = ''Due today'', row_date = ''ms:0''\<rparr>] \<and>
   scheduled (snd (add sample_host {} ''Pay rent'' ''Due today'' 0 installed)) =
     [\<lparr>request_identifier = ''uuid-0'', content_title = ''Pay rent'',
       content_body = ''Due today'', content_sound = True, trigger_date = 0\<rparr>] \<and>
   toString 1 = ''1'' \<and>
   stored (snd (deleteReminder {} 1
       (snd (add sample_host {} ''Pay rent'' ''Due today'' 0 installed)))) = [] \<and>
   scheduled (snd (deleteReminder {} 1
       (snd (add sample_host {} ''Pay rent'' ''Due today'' 0 installed)))) =
     [\<lparr>request_identifier = ''uuid-0'', content_title = ''Pay rent'',
       content_body = ''Due today'', content_sound = True, trigger_date = 0\<rparr>] \<and>
   console (snd (deleteReminder {} 1
       (snd (add sample_host {} ''Pay rent'' ''Due today'' 0 installed)))) =
     [(''Database initialized'', None)]"
  by (simp add: stored_def installed_eq run_defs)

section \<open>Errors\<close>

lemma runAsync_insert_resolved_iff:
  "fst (runAsync_insert F t m d w) = Resolved () \<longleftrightarrow>
   InsertFault \<notin> F \<and> (\<exists>tb. reminders_tbl (db w) = Some tb \<and> max_rowid tb < MAX_ROWID)"
  by (auto simp add: runAsync_insert_cases sql_insert_def split: option.splits)




section \<open>Ids\<close>

lemma fold_max_bounded:
  "(\<And>r. r \<in> set rs \<Longrightarrow> row_id r \<le> k) \<Longrightarrow> fold (\<lambda>r m. max (row_id r) m) rs (k::int) = k"
  by (induction rs) (simp_all add: max_absorb2)

lemma max_rowid_after_insert:
  "max_rowid \<lparr>rows = rows tb @ [\<lparr>row_id = next_rowid tb, row_title = t, row_message = m,
       row_date = d\<rparr>], sqlite_sequence = next_rowid tb\<rparr> = next_rowid tb"
proof -
  have "fold (\<lambda>r m. max (row_id r) m) (rows tb) (next_rowid tb) = next_rowid tb"
  proof (rule fold_max_bounded)
    fix r assume "r \<in> set (rows tb)"
    then show "row_id r \<le> next_rowid tb"
      using max_rowid_ge_row [of r tb] by (simp add: next_rowid_def)
  qed
  then show ?thesis by (simp add: max_rowid_def)
qed

lemma add_stored:
  assumes "InsertFault \<notin> F" "reminders_tbl (db w) = Some tb" "max_rowid tb < MAX_ROWID"
  shows "reminders_tbl (db (snd (add h F t m d w))) = Some
        \<lparr>rows = rows tb @
           [\<lparr>row_id = next_rowid tb, row_title = t, row_message = m,
             row_date = toISOString h d\<rparr>],
         sqlite_sequence = next_rowid tb\<rparr>"
proof -
  have tb: "reminders_tbl (db (w\<lparr>title := t, message := m, date := d\<rparr>)) = Some tb"
    using assms(2) by simp
  show ?thesis
    using addReminder_stored [OF assms(1) tb assms(3), of h] by (simp add: add_def)
qed

lemma sequential_adds:
  assumes "\<forall>(F, a) \<in> set acts. InsertFault \<notin> F \<and> (\<exists>t m d. a = PressAdd t m d)"
    and "reminders_tbl (db w) = Some tb"
    and "max_rowid tb + int (length acts) \<le> MAX_ROWID"
  shows "\<exists>tb'. reminders_tbl (db (run h acts w)) = Some tb' \<and>
     map row_id (rows tb') =
       map row_id (rows tb) @ [max_rowid tb + 1 .. max_rowid tb + int (length acts)]"
  using assms
proof (induction acts arbitrary: w tb)
  case Nil
  then show ?case by (simp add: run_def)
next
  case (Cons fa acts)
  obtain F a where fa: "fa = (F, a)" by (cases fa)
  from Cons.prems(1) fa obtain t m d where a: "a = PressAdd t m d" and F: "InsertFault \<notin> F"
    by auto
  let ?tb1 = "\<lparr>rows = rows tb @
           [\<lparr>row_id = next_rowid tb, row_title = t, row_message = m,
             row_date = toISOString h d\<rparr>],
         sqlite_sequence = next_rowid tb\<rparr>"
  let ?w1 = "step h fa w"
  have room: "max_rowid tb < MAX_ROWID" using Cons.prems(3) by simp
  have tb1: "reminders_tbl (db ?w1) = Some ?tb1"
    using add_stored [OF F Cons.prems(2) room] by (simp add: fa a)
  have m1: "max_rowid ?tb1 = max_rowid tb + 1"
    using max_rowid_after_insert [of tb t m "toISOString h d"] by (simp add: next_rowid_def)
  have rest: "\<forall>(F, a) \<in> set acts. InsertFault \<notin> F \<and> (\<exists>t m d. a = PressAdd t m d)"
    using Cons.prems(1) by simp
  have room1: "max_rowid ?tb1 + int (length acts) \<le> MAX_ROWID"
    using Cons.prems(3) m1 by simp
  from Cons.IH [OF rest tb1 room1] obtain tb' where
    tb': "reminders_tbl (db (run h acts ?w1)) = Some tb'"
    and ids: "map row_id (rows tb') =
       map row_id (rows ?tb1) @ [max_rowid ?tb1 + 1 .. max_rowid ?tb1 + int (length acts)]"
    by blast
  have "[max_rowid tb + 1 .. max_rowid tb + int (length (fa # acts))] =
        (max_rowid tb + 1) # [max_rowid tb + 1 + 1 .. max_rowid tb + 1 + int (length acts)]"
    by (subst upto_rec1) (simp_all add: add.assoc)
  then have "map row_id (rows tb') =
       map row_id (rows tb) @ [max_rowid tb + 1 .. max_rowid tb + int (length (fa # acts))]"
    using ids m1 by (simp add: next_rowid_def)
  moreover have "run h (fa # acts) w = run h acts ?w1" by (simp add: run_def)
  ultimately show ?case using tb' by simp
qed

lemma step_invariant:
  assumes "db_ok (db w)" "reminders_tbl (db w) = Some tb"
  shows "\<exists>tb'. reminders_tbl (db (step h fa w)) = Some tb' \<and> db_ok (db (step h fa w)) \<and>
               sqlite_sequence tb \<le> sqlite_sequence tb'"
proof -
  obtain F a where fa: "fa = (F, a)" by (cases fa)
  have ok: "\<And>r. r \<in> set (rows tb) \<Longrightarrow> row_id r \<le> sqlite_sequence tb"
    using assms by (simp add: db_ok_def list_all_iff)
  show ?thesis
  proof (cases a)
    case (PressAdd t m d)
    let ?v = "w\<lparr>title := t, message := m, date := d\<rparr>"
    show ?thesis
    proof (cases "fst (runAsync_insert F (title ?v) (message ?v) (toISOString h (date ?v)) ?v)")
      case (Rejected e)
      then show ?thesis using assms
        by (simp add: fa PressAdd add_def addReminder_insert_failed [OF Rejected])
    next
      case (Resolved u)
      then have F: "InsertFault \<notin> F" and room: "max_rowid tb < MAX_ROWID"
        using assms(2) by (auto simp add: runAsync_insert_resolved_iff)
      have "\<And>r. r \<in> set (rows tb) \<Longrightarrow> row_id r \<le> next_rowid tb"
        using max_rowid_ge_row by (fastforce simp add: next_rowid_def)
      moreover have "sqlite_sequence tb \<le> next_rowid tb"
        using max_rowid_ge_sequence [of tb] by (simp add: next_rowid_def)
      ultimately show ?thesis
        using add_stored [OF F assms(2) room, of h t m d]
        by (simp add: fa PressAdd db_ok_def list_all_iff)
    qed
  next
    case (PressDelete i)
    show ?thesis using assms ok
      by (simp add: fa PressDelete deleteReminder_db db_ok_def list_all_iff)
  qed
qed

lemma run_invariant:
  assumes "db_ok (db w)" "reminders_tbl (db w) = Some tb"
  shows "\<exists>tb'. reminders_tbl (db (run h acts w)) = Some tb' \<and> db_ok (db (run h acts w)) \<and>
               sqlite_sequence tb \<le> sqlite_sequence tb'"
  using assms
proof (induction acts arbitrary: w tb)
  case Nil
  then show ?case by (simp add: run_def)
next
  case (Cons fa acts)
  from step_invariant [OF Cons.prems, of h fa] obtain tb1 where
    s: "reminders_tbl (db (step h fa w)) = Some tb1" "db_ok (db (step h fa w))"
       "sqlite_sequence tb \<le> sqlite_sequence tb1" by blast
  from Cons.IH [OF s(2) s(1)] obtain tb' where
    "reminders_tbl (db (run h acts (step h fa w))) = Some tb'"
    "db_ok (db (run h acts (step h fa w)))" "sqlite_sequence tb1 \<le> sqlite_sequence tb'"
    by blast
  moreover have "run h (fa # acts) w = run h acts (step h fa w)" by (simp add: run_def)
  ultimately show ?case using s(3) by auto
qed

lemma never_reused:
  assumes "db_ok (db w)" "r \<in> set (stored w)"
    and "reminders_tbl (db (run h acts w)) = Some tb'"
  shows "row_id r < next_rowid tb'"
proof -
  obtain tb where tb: "reminders_tbl (db w) = Some tb" and r: "r \<in> set (rows tb)"
    using assms(2) by (cases "reminders_tbl (db w)") (auto simp add: stored_def)
  have "row_id r \<le> sqlite_sequence tb"
    using assms(1) tb r by (simp add: db_ok_def list_all_iff)
  also have "\<dots> \<le> sqlite_sequence tb'"
    using run_invariant [OF assms(1) tb, of h acts] assms(3) by auto
  also have "\<dots> \<le> max_rowid tb'" by (rule max_rowid_ge_sequence)
  finally show ?thesis by (simp add: next_rowid_def)
qed

text \<open>
  C5. Ids are assigned by the engine (\<^verbatim>\<open>AUTOINCREMENT\<close>). A run of \<open>N\<close> adds whose inserts the
  engine accepts appends \<open>N\<close> records whose ids are the \<open>N\<close> integers following the largest
  rowid the table has held: pairwise distinct, increasing, and different from every id
  already present. And an id once held by a record is never assigned again: after any
  run of adds and deletes, failing or not, the next record added gets a larger id.
\<close>

theorem ids_distinct_and_never_reused:
  "((\<forall>(F, a) \<in> set acts. InsertFault \<notin> F \<and> (\<exists>t m d. a = PressAdd t m d)) \<and>
    reminders_tbl (db w) = Some tb \<and> max_rowid tb + int (length acts) \<le> MAX_ROWID \<longrightarrow>
      map row_id (stored (run h acts w)) =
        map row_id (rows tb) @ [max_rowid tb + 1 .. max_rowid tb + int (length acts)] \<and>
      length [max_rowid tb + 1 .. max_rowid tb + int (length acts)] = length acts \<and>
      distinct [max_rowid tb + 1 .. max_rowid tb + int (length acts)] \<and>
      sorted_wrt (<) [max_rowid tb + 1 .. max_rowid tb + int (length acts)] \<and>
      set [max_rowid tb + 1 .. max_rowid tb + int (length acts)] \<inter> row_id ` set (rows tb) = {}) \<and>
   (db_ok (db w) \<and> r \<in> set (stored w) \<and> reminders_tbl (db (run h acts' w)) = Some tb' \<and>
    InsertFault \<notin> F' \<and> max_rowid tb' < MAX_ROWID \<longrightarrow>
      stored (snd (add h F' t m d (run h acts' w))) =
        rows tb' @ [\<lparr>row_id = next_rowid tb', row_title = t, row_message = m,
                     row_date = toISOString h d\<rparr>] \<and>
      row_id r < next_rowid tb')"
proof (intro conjI impI)
  assume a: "(\<forall>(F, a) \<in> set acts. InsertFault \<notin> F \<and> (\<exists>t m d. a = PressAdd t m d)) \<and>
    reminders_tbl (db w) = Some tb \<and> max_rowid tb + int (length acts) \<le> MAX_ROWID"
  then have a1: "\<forall>(F, a) \<in> set acts. InsertFault \<notin> F \<and> (\<exists>t m d. a = PressAdd t m d)"
    and a2: "reminders_tbl (db w) = Some tb"
    and a3: "max_rowid tb + int (length acts) \<le> MAX_ROWID" by blast+
  from sequential_adds [OF a1 a2 a3, of h]
  show "map row_id (stored (run h acts w)) =
        map row_id (rows tb) @ [max_rowid tb + 1 .. max_rowid tb + int (length acts)]"
    by (auto simp add: stored_def)
  show "length [max_rowid tb + 1 .. max_rowid tb + int (length acts)] = length acts"
    by simp
  show "distinct [max_rowid tb + 1 .. max_rowid tb + int (length acts)]" by simp
  show "sorted_wrt (<) [max_rowid tb + 1 .. max_rowid tb + int (length acts)]" by simp
  show "set [max_rowid tb + 1 .. max_rowid tb + int (length acts)] \<inter> row_id ` set (rows tb) = {}"
    using max_rowid_ge_row [of _ tb] by fastforce
next
  assume b: "db_ok (db w) \<and> r \<in> set (stored w) \<and> reminders_tbl (db (run h acts' w)) = Some tb' \<and>
    InsertFault \<notin> F' \<and> max_rowid tb' < MAX_ROWID"
  then have b1: "db_ok (db w)" and b2: "r \<in> set (stored w)"
    and b3: "reminders_tbl (db (run h acts' w)) = Some tb'"
    and b4: "InsertFault \<notin> F'" and b5: "max_rowid tb' < MAX_ROWID" by blast+
  show "stored (snd (add h F' t m d (run h acts' w))) =
        rows tb' @ [\<lparr>row_id = next_rowid tb', row_title = t, row_message = m,
                     row_date = toISOString h d\<rparr>]"
    using add_stored [OF b4 b3 b5, of h t m d] by (simp add: stored_def)
  show "row_id r < next_rowid tb'" by (rule never_reused [OF b1 b2 b3])
qed

theorem ids_distinct_and_never_reused_witness:
  "reminders_tbl (db one_reminder) =
     Some \<lparr>rows = [\<lparr>row_id = 1, row_title = ''Pay rent'', row_message = ''Due today'',
                     row_date = ''ms:0''\<rparr>], sqlite_sequence = 1\<rparr> \<and>
   db_ok (db one_reminder) \<and>
   \<lparr>row_id = 1, row_title = ''Pay rent'', row_message = ''Due today'', row_date = ''ms:0''\<rparr>
     \<in> set (stored one_reminder) \<and>
   reminders_tbl (db (run sample_host [({}, PressDelete 1)] one_reminder)) =
     Some \<lparr>rows = [], sqlite_sequence = 1\<rparr> \<and>
   map row_id (stored (run sample_host
       [({}, PressAdd ''a'' ''b'' 0), ({ScheduleFault}, PressAdd ''c'' [] 5)] one_reminder)) =
     [1, 2, 3] \<and>
   stored (snd (add sample_host {} ''d'' ''e'' 7
       (run sample_host [({}, PressDelete 1)] one_reminder))) =
     [\<lparr>row_id = 2, row_title = ''d'', row_message = ''e'', row_date = ''ms:7''\<rparr>]"
proof -
  let ?tb = "\<lparr>rows = [\<lparr>row_id = 1, row_title = ''Pay rent'', row_message = ''Due today'',
                     row_date = ''ms:0''\<rparr>], sqlite_sequence = 1\<rparr>"
  let ?r = "\<lparr>row_id = 1, row_title = ''Pay rent'', row_message = ''Due today'',
             row_date = ''ms:0''\<rparr>"
  have h1: "\<forall>(F, a) \<in> set [({}, PressAdd ''a'' ''b'' 0), ({ScheduleFault}, PressAdd ''c'' [] 5)].
      InsertFault \<notin> F \<and> (\<exists>t m d. a = PressAdd t m d)" by simp
  have h2: "reminders_tbl (db one_reminder) = Some ?tb" by (simp add: one_reminder_eq)
  have h3: "max_rowid ?tb + int (length [({}, PressAdd ''a'' ''b'' 0),
      ({ScheduleFault}, PressAdd ''c'' [] 5)]) \<le> MAX_ROWID"
    by (simp add: max_rowid_def MAX_ROWID_def)
  have h4: "db_ok (db one_reminder)" by (simp add: one_reminder_eq db_ok_def)
  have h5: "?r \<in> set (stored one_reminder)" by (simp add: one_reminder_eq stored_def)
  have h6: "reminders_tbl (db (run sample_host [({}, PressDelete 1)] one_reminder)) =
     Some \<lparr>rows = [], sqlite_sequence = 1\<rparr>"
    by (simp add: run_def deleteReminder_db one_reminder_eq)
  have h7: "InsertFault \<notin> {}" "max_rowid \<lparr>rows = [], sqlite_sequence = 1\<rparr> < MAX_ROWID"
    by (simp_all add: max_rowid_def MAX_ROWID_def)
  have up: "[2..3] = [2, 3::int]" by (simp add: upto_rec1)
  show ?thesis
    using h1 h2 h3 h4 h5 h6 h7
      ids_distinct_and_never_reused [of
        "[({}, PressAdd ''a'' ''b'' 0), ({ScheduleFault}, PressAdd ''c'' [] 5)]"
        one_reminder ?tb sample_host ?r "[({}, PressDelete 1)]"
        "\<lparr>rows = [], sqlite_sequence = 1\<rparr>" "{}" "''d''" "''e''" 7]
    by (simp add: max_rowid_def next_rowid_def up sample_host_def toString_def digit_char_def)
qed

end
